theory Spec2Isabelle
  imports Main "HOL-Library.Word" "HOL-Library.Sublist"
begin

section \<open>JavaScript strings\<close>

text \<open>
  A JavaScript string is a sequence of UTF-16 code units; \<open>.length\<close> counts code units.
  \<open>js\<close> embeds an ASCII literal of the source.
\<close>

type_synonym js_string = "16 word list"

definition js :: "string \<Rightarrow> js_string" where
  "js s = map of_char s"

text \<open>
  The code units removed by \<open>String.prototype.trim\<close> and skipped by \<open>parseInt\<close>:
  ECMAScript's WhiteSpace (TAB, VT, FF, SP, NBSP, ZWNBSP and the category Zs) and
  LineTerminator (LF, CR, LS, PS).
\<close>

definition is_white_space :: "16 word \<Rightarrow> bool" where
  "is_white_space c \<longleftrightarrow>
     c = 0x0009 \<or> c = 0x000A \<or> c = 0x000B \<or> c = 0x000C \<or> c = 0x000D \<or> c = 0x0020 \<or>
     c = 0x00A0 \<or> c = 0x1680 \<or> (0x2000 \<le> c \<and> c \<le> 0x200A) \<or> c = 0x2028 \<or> c = 0x2029 \<or>
     c = 0x202F \<or> c = 0x205F \<or> c = 0x3000 \<or> c = 0xFEFF"

definition trim :: "js_string \<Rightarrow> js_string" where
  "trim s = rev (dropWhile is_white_space (rev (dropWhile is_white_space s)))"

definition startsWith :: "js_string \<Rightarrow> js_string \<Rightarrow> bool" where
  "startsWith s p = prefix p s"

text \<open>\<open>s.slice(1)\<close> and \<open>s.split('.')[0]\<close>.\<close>

definition slice_1 :: "js_string \<Rightarrow> js_string" where
  "slice_1 s = drop 1 s"

definition split_dot_0 :: "js_string \<Rightarrow> js_string" where
  "split_dot_0 s = takeWhile (\<lambda>c. c \<noteq> 0x2E) s"

text \<open>
  \<open>parseInt(s)\<close> with no radix: leading white space is skipped, one sign is read, a
  prefix \<open>0x\<close> or \<open>0X\<close> selects radix 16 (radix 10 otherwise), and the longest run of
  digits of that radix is read. No digit gives \<open>NaN\<close>, here \<open>None\<close>. Otherwise the result
  here is the signed integer the digits denote. The Number that JavaScript returns is
  the double nearest to that integer: the same integer below \<open>2 ^ 53\<close>, a rounded one or
  \<open>Infinity\<close> above. The source only compares the result with 18; rounding to a double
  is monotone and 18 is a double, so the integer decides that comparison as the Number
  does.
\<close>

definition digit_val :: "16 word \<Rightarrow> nat option" where
  "digit_val c =
     (if 0x30 \<le> c \<and> c \<le> 0x39 then Some (unat c - 0x30)
      else if 0x61 \<le> c \<and> c \<le> 0x7A then Some (unat c - 0x61 + 10)
      else if 0x41 \<le> c \<and> c \<le> 0x5A then Some (unat c - 0x41 + 10)
      else None)"

definition is_radix_digit :: "nat \<Rightarrow> 16 word \<Rightarrow> bool" where
  "is_radix_digit R c = (case digit_val c of None \<Rightarrow> False | Some d \<Rightarrow> d < R)"

definition digits_value :: "nat \<Rightarrow> js_string \<Rightarrow> nat" where
  "digits_value R Z = foldl (\<lambda>acc c. acc * R + (case digit_val c of None \<Rightarrow> 0 | Some d \<Rightarrow> d)) 0 Z"

definition parseInt :: "js_string \<Rightarrow> int option" where
  "parseInt inputString =
     (let S = dropWhile is_white_space inputString;
          sign = (if S \<noteq> [] \<and> hd S = 0x2D then - 1 else (1::int));
          S1 = (if S \<noteq> [] \<and> (hd S = 0x2B \<or> hd S = 0x2D) then tl S else S);
          hex = (2 \<le> length S1 \<and> (take 2 S1 = js ''0x'' \<or> take 2 S1 = js ''0X''));
          R = (if hex then 16 else 10);
          S2 = (if hex then drop 2 S1 else S1);
          Z = takeWhile (is_radix_digit R) S2
      in if Z = [] then None else Some (sign * int (digits_value R Z)))"

text \<open>The decimal rendering of an array length in a template literal.\<close>

fun show_nat :: "nat \<Rightarrow> js_string" where
  "show_nat n =
     (if n < 10 then [of_nat (0x30 + n)]
      else show_nat (n div 10) @ [of_nat (0x30 + n mod 10)])"

declare show_nat.simps [simp del]

section \<open>Data model\<close>

datatype status = Pass | Fail | Warn

record CheckResult =
  name :: js_string
  status :: status
  message :: js_string

text \<open>
  Console output keeps the chalk style of each piece of text instead of fixing an
  escape-sequence encoding: one \<open>console.log\<close> call is a list of styled segments.
\<close>

datatype style = Plain | Green | Yellow | Red | Cyan | White | BoldCyan | BoldGreen | BoldRed

type_synonym line = "(style \<times> js_string) list"

definition line_text :: "line \<Rightarrow> js_string" where
  "line_text l = concat (map snd l)"

text \<open>
  The mutable state of one run: the module-level \<open>results\<close> array, what was written to
  standard output, and the argument of \<open>process.exit\<close> once it has been called.
\<close>

record state =
  results :: "CheckResult list"
  stdout :: "line list"
  exited :: "nat option"

definition initial :: state where
  "initial = \<lparr>results = [], stdout = [], exited = None\<rparr>"

text \<open>
  A process that returns from \<open>main\<close> without calling \<open>process.exit\<close> ends with status 0
  (\<open>process.exitCode\<close> is never assigned).
\<close>

definition exit_status :: "state \<Rightarrow> nat" where
  "exit_status s = (case exited s of None \<Rightarrow> 0 | Some c \<Rightarrow> c)"

text \<open>
  The ambient inputs of a run: the two environment variables (\<open>None\<close> when unset),
  \<open>process.version\<close>, and the outcome of every awaited operation, which either resolves
  (\<open>None\<close>) or rejects with an \<open>Error\<close> object carrying a message (\<open>Some e\<close>). The two
  browser launches are separate operations.
\<close>

datatype js_error = Error (error_message: js_string)

record env =
  ANTHROPIC_API_KEY :: "js_string option"
  GEMINI_API_KEY :: "js_string option"
  version :: js_string
  ensureDir :: "js_string \<Rightarrow> js_error option"
  access_W_OK :: "js_string \<Rightarrow> js_error option"
  playwright_launch :: "js_error option"
  playwright_close :: "js_error option"
  network_launch :: "js_error option"
  network_newPage :: "js_error option"
  network_goto :: "js_error option"
  network_close :: "js_error option"

text \<open>The awaits of a \<open>try\<close> block in order: the first rejection is what \<open>catch\<close> receives.\<close>

fun first_rejection :: "js_error option list \<Rightarrow> js_error option" where
  "first_rejection [] = None"
| "first_rejection (None # os) = first_rejection os"
| "first_rejection (Some e # os) = Some e"

section \<open>The probes\<close>

text \<open>
  \<open>log\<close> pushes the result on the results array and prints one line: the icon of the
  status, the name in the colour of the status, and the message.
\<close>

definition icon :: "status \<Rightarrow> js_string" where
  "icon st = (if st = Pass then [0x2705] else if st = Warn then [0x26A0, 0xFE0F] else [0x274C])"

definition color :: "status \<Rightarrow> style" where
  "color st = (if st = Pass then Green else if st = Warn then Yellow else Red)"

definition log :: "CheckResult \<Rightarrow> state \<Rightarrow> state" where
  "log result s =
     s\<lparr>results := results s @ [result],
       stdout := stdout s @
         [[(Plain, icon (status result) @ js '' ''),
           (color (status result), name result),
           (Plain, js '': '' @ message result)]]\<rparr>"

definition checkAnthropicKey :: "env \<Rightarrow> state \<Rightarrow> state" where
  "checkAnthropicKey e s =
     (let not_set = \<lparr>name = js ''Anthropic API Key'', status = Fail,
                      message = js ''Not set. Run: export ANTHROPIC_API_KEY=your_key_here''\<rparr>
      in case map_option trim (ANTHROPIC_API_KEY e) of
           None \<Rightarrow> log not_set s
         | Some key \<Rightarrow>
             if key = [] then log not_set s
             else if \<not> startsWith key (js ''sk-ant-'') then
               log \<lparr>name = js ''Anthropic API Key'', status = Warn,
                    message = js ''Key format looks unusual (should start with sk-ant-)''\<rparr> s
             else if length key < 50 then
               log \<lparr>name = js ''Anthropic API Key'', status = Warn,
                    message = js ''Key seems too short. Make sure you copied the full key.''\<rparr> s
             else
               log \<lparr>name = js ''Anthropic API Key'', status = Pass,
                    message = js ''Set and format looks correct''\<rparr> s)"

definition checkGeminiKey :: "env \<Rightarrow> state \<Rightarrow> state" where
  "checkGeminiKey e s =
     (let not_set = \<lparr>name = js ''Gemini API Key'', status = Fail,
                      message = js ''Not set. Run: export GEMINI_API_KEY=your_key_here''\<rparr>
      in case map_option trim (GEMINI_API_KEY e) of
           None \<Rightarrow> log not_set s
         | Some key \<Rightarrow>
             if key = [] then log not_set s
             else if length key < 30 then
               log \<lparr>name = js ''Gemini API Key'', status = Warn,
                    message = js ''Key seems too short. Make sure you copied the full key.''\<rparr> s
             else
               log \<lparr>name = js ''Gemini API Key'', status = Pass,
                    message = js ''Set and format looks correct''\<rparr> s)"

definition checkPlaywright :: "env \<Rightarrow> state \<Rightarrow> state" where
  "checkPlaywright e s =
     (case first_rejection [playwright_launch e, playwright_close e] of
        None \<Rightarrow>
          log \<lparr>name = js ''Playwright Browser'', status = Pass,
               message = js ''Chromium is installed and working''\<rparr> s
      | Some error \<Rightarrow>
          log \<lparr>name = js ''Playwright Browser'', status = Fail,
               message = js ''Browser failed: '' @ error_message error @
                         js ''. Run: npx playwright install chromium''\<rparr> s)"

text \<open>
  \<open>checkDirectories\<close> runs the body of its loop, here \<open>checkDirectory\<close>, on each path of
  \<open>dirs\<close> in turn.
\<close>

definition dirs :: "js_string list" where
  "dirs = [js ''./cloned-pages'', js ''./screenshots'']"

definition checkDirectory :: "env \<Rightarrow> state \<Rightarrow> js_string \<Rightarrow> state" where
  "checkDirectory e s dir =
     (case first_rejection [ensureDir e dir, access_W_OK e dir] of
        None \<Rightarrow>
          log \<lparr>name = js ''Directory '' @ dir, status = Pass,
               message = js ''Exists and writable''\<rparr> s
      | Some error \<Rightarrow>
          log \<lparr>name = js ''Directory '' @ dir, status = Fail,
               message = js ''Cannot create or write to directory''\<rparr> s)"

definition checkDirectories :: "env \<Rightarrow> state \<Rightarrow> state" where
  "checkDirectories e s = foldl (checkDirectory e) s dirs"

definition checkNetwork :: "env \<Rightarrow> state \<Rightarrow> state" where
  "checkNetwork e s =
     (case first_rejection [network_launch e, network_newPage e, network_goto e, network_close e] of
        None \<Rightarrow>
          log \<lparr>name = js ''Network Access'', status = Pass,
               message = js ''Can reach external websites''\<rparr> s
      | Some error \<Rightarrow>
          log \<lparr>name = js ''Network Access'', status = Fail,
               message = js ''Cannot reach websites. Check your internet connection.''\<rparr> s)"

definition major_of :: "js_string \<Rightarrow> int option" where
  "major_of v = parseInt (split_dot_0 (slice_1 v))"

definition checkNodeVersion :: "env \<Rightarrow> state \<Rightarrow> state" where
  "checkNodeVersion e s =
     (let major = major_of (version e)
      in if (case major of None \<Rightarrow> False | Some m \<Rightarrow> 18 \<le> m) then
           log \<lparr>name = js ''Node.js Version'', status = Pass,
                message = version e @ js '' (18+ required)''\<rparr> s
         else
           log \<lparr>name = js ''Node.js Version'', status = Fail,
                message = version e @ js '' is too old. Need Node 18+''\<rparr> s)"

section \<open>The entry point\<close>

definition banner :: line where
  "banner =
     [(BoldCyan,
       [0x0A] @ [0x2554] @ replicate 62 0x2550 @ [0x2557] @ [0x0A] @
       [0x2551] @ js ''              ENVIRONMENT CHECK - Geekout Vegas 2026          '' @ [0x2551] @ [0x0A] @
       [0x255A] @ replicate 62 0x2550 @ [0x255D] @ [0x0A])]"

text \<open>A \<open>console.log\<close> call outside \<open>log\<close>: one more line on standard output.\<close>

definition console_log :: "line \<Rightarrow> state \<Rightarrow> state" where
  "console_log l s = s\<lparr>stdout := stdout s @ [l]\<rparr>"

text \<open>The first half of \<open>main\<close>: the banner and the six probes in their order.\<close>

definition main_probes :: "env \<Rightarrow> state \<Rightarrow> state" where
  "main_probes e s =
     checkNetwork e (checkPlaywright e (checkDirectories e (checkGeminiKey e
       (checkAnthropicKey e (checkNodeVersion e (console_log banner s))))))"

text \<open>The second half of \<open>main\<close>: the summary computed from the results array.\<close>

definition main_summary :: "state \<Rightarrow> state" where
  "main_summary s0 =
     (let s = console_log [(Plain, [0x0A] @ replicate 60 0x2500 @ [0x0A])] s0;
          failed = filter (\<lambda>r. status r = Fail) (results s);
          warned = filter (\<lambda>r. status r = Warn) (results s);
          passed = filter (\<lambda>r. status r = Pass) (results s)
      in if length failed = 0 then
           (let s1 = console_log
                  [(BoldGreen, [0xD83C, 0xDF89] @ js '' ALL CHECKS PASSED! ('' @
                     show_nat (length passed) @ js ''/'' @ show_nat (length (results s)) @ js '')'')] s;
                s2 = (if 0 < length warned then
                        console_log
                          [(Yellow, js ''   '' @ show_nat (length warned) @
                             js '' warning(s) - review above'')] s1
                      else s1)
            in console_log [(Cyan, [0x0A] @ js ''   Ready to start! Type: claude'' @ [0x0A])] s2)
         else
           (let s1 = console_log
                  [(BoldRed, [0x274C] @ js '' '' @ show_nat (length failed) @ js '' CHECK(S) FAILED'')] s;
                s2 = console_log
                  [(White, [0x0A] @ js ''   Fix the issues above, then run: npm run check'' @ [0x0A])] s1
            in s2\<lparr>exited := Some 1\<rparr>))"

definition main :: "env \<Rightarrow> state" where
  "main e = main_summary (main_probes e initial)"

section \<open>Notions used to state the properties\<close>

definition is_dec_digit :: "16 word \<Rightarrow> bool" where
  "is_dec_digit c \<longleftrightarrow> 0x30 \<le> c \<and> c \<le> 0x39"

text \<open>The value of a run of decimal digits, read the usual way.\<close>

definition decimal_value :: "js_string \<Rightarrow> nat" where
  "decimal_value ds = foldl (\<lambda>acc d. 10 * acc + (unat d - 48)) 0 ds"

text \<open>
  The numeric prefix of a version string: the run of decimal digits at the start of the
  text before the first dot, the leading character stripped.
\<close>

definition numeric_prefix :: "js_string \<Rightarrow> js_string" where
  "numeric_prefix v = takeWhile is_dec_digit (split_dot_0 (slice_1 v))"

text \<open>The text after the leading character begins with the hexadecimal marker.\<close>

definition hex_marked :: "js_string \<Rightarrow> bool" where
  "hex_marked v \<longleftrightarrow> take 2 (slice_1 v) = js ''0x'' \<or> take 2 (slice_1 v) = js ''0X''"

text \<open>What is left of a string once leading white space and one sign are skipped.\<close>

definition unsigned_part :: "js_string \<Rightarrow> js_string" where
  "unsigned_part s =
     (let S = dropWhile is_white_space s
      in if S \<noteq> [] \<and> (hd S = 0x2B \<or> hd S = 0x2D) then tl S else S)"

text \<open>
  A sample environment for concrete runs: no key set, Node 20, every operation resolves.
\<close>

definition env0 :: env where
  "env0 = \<lparr>ANTHROPIC_API_KEY = None, GEMINI_API_KEY = None, version = js ''v20.11.0'',
     ensureDir = (\<lambda>d. None), access_W_OK = (\<lambda>d. None),
     playwright_launch = None, playwright_close = None,
     network_launch = None, network_newPage = None, network_goto = None, network_close = None\<rparr>"

text \<open>The same environment with both keys set to well-formed values.\<close>

definition env_ok :: env where
  "env_ok = env0\<lparr>ANTHROPIC_API_KEY := Some (js ''sk-ant-'' @ replicate 43 0x61),
                 GEMINI_API_KEY := Some (0x41 # replicate 39 0x41)\<rparr>"

text \<open>An environment in which every probe fails.\<close>

definition env_bad :: env where
  "env_bad = \<lparr>ANTHROPIC_API_KEY = None, GEMINI_API_KEY = Some (js ''  ''), version = js ''v16.20.2'',
     ensureDir = (\<lambda>d. Some (Error (js ''EACCES: permission denied''))),
     access_W_OK = (\<lambda>d. Some (Error (js ''EACCES: permission denied''))),
     playwright_launch = Some (Error (js ''Executable does not exist'')),
     playwright_close = None,
     network_launch = None, network_newPage = None,
     network_goto = Some (Error (js ''page.goto: Timeout 10000ms exceeded.'')),
     network_close = None\<rparr>"

text \<open>Sample results, one of each status, for concrete summaries.\<close>

definition sample :: "status \<Rightarrow> CheckResult" where
  "sample st = \<lparr>name = js ''probe'', status = st, message = js ''text''\<rparr>"

section \<open>Basic facts\<close>

lemma results_log: "results (log r s) = results s @ [r]"
  by (simp add: log_def)

lemma exited_log: "exited (log r s) = exited s"
  by (simp add: log_def)

lemma dropWhile_hd_id: "s \<noteq> [] \<Longrightarrow> \<not> P (hd s) \<Longrightarrow> dropWhile P s = s"
  by (cases s) simp_all

lemma trim_id:
  assumes "s \<noteq> []" "\<not> is_white_space (hd s)" "\<not> is_white_space (last s)"
  shows "trim s = s"
proof -
  have "dropWhile is_white_space s = s"
    using assms(1,2) by (rule dropWhile_hd_id)
  moreover have "dropWhile is_white_space (rev s) = rev s"
    using assms(1,3) by (intro dropWhile_hd_id) (simp_all add: hd_rev)
  ultimately show ?thesis by (simp add: trim_def)
qed

lemma length_js: "length (js s) = length s"
  by (simp add: js_def)

lemma js_eq_Nil: "js s = [] \<longleftrightarrow> s = []"
  by (simp add: js_def)

lemma sk_ant_nonempty: "js ''sk-ant-'' \<noteq> []"
  by (simp add: js_def)

section \<open>The API key probes\<close>

text \<open>
  C2. For every value of the environment variable, \<open>checkAnthropicKey\<close> appends exactly one
  result. Its status is fail when the variable is unset or trims to the empty string, warn
  when the trimmed value does not start with \<open>sk-ant-\<close>, warn when it starts with the prefix
  and is shorter than 50, and pass otherwise.
\<close>

theorem checkAnthropicKey_status:
  "\<exists>r. results (checkAnthropicKey e s) = results s @ [r] \<and>
     (let key = map_option trim (ANTHROPIC_API_KEY e) in
       (key = None \<or> key = Some [] \<longrightarrow> status r = Fail) \<and>
       (\<forall>k. key = Some k \<and> k \<noteq> [] \<and> \<not> prefix (js ''sk-ant-'') k \<longrightarrow> status r = Warn) \<and>
       (\<forall>k. key = Some k \<and> prefix (js ''sk-ant-'') k \<and> length k < 50 \<longrightarrow> status r = Warn) \<and>
       (\<forall>k. key = Some k \<and> prefix (js ''sk-ant-'') k \<and> 50 \<le> length k \<longrightarrow> status r = Pass))"
proof (cases "map_option trim (ANTHROPIC_API_KEY e)")
  case None
  then show ?thesis
    by (simp add: checkAnthropicKey_def results_log)
next
  case (Some k)
  have ne: "prefix (js ''sk-ant-'') k \<Longrightarrow> k \<noteq> []"
    using sk_ant_nonempty by auto
  from Some ne show ?thesis
    by (auto simp add: checkAnthropicKey_def results_log startsWith_def Let_def)
qed

text \<open>
  The cases the specification lists: unset, the value \<open>short\<close>, fifty letters without the
  prefix, and the prefix followed by forty-three letters.
\<close>

theorem checkAnthropicKey_status_witness:
  "map status (results (checkAnthropicKey env0 initial)) = [Fail] \<and>
   map status (results (checkAnthropicKey
      (env0\<lparr>ANTHROPIC_API_KEY := Some (js ''short'')\<rparr>) initial)) = [Warn] \<and>
   map status (results (checkAnthropicKey
      (env0\<lparr>ANTHROPIC_API_KEY := Some (0x61 # replicate 49 0x61)\<rparr>) initial)) = [Warn] \<and>
   map status (results (checkAnthropicKey
      (env0\<lparr>ANTHROPIC_API_KEY := Some (js ''sk-ant-'' @ replicate 43 0x61)\<rparr>) initial)) = [Pass]"
proof -
  have t1: "trim (js ''short'') = js ''short''"
    by (rule trim_id) (simp_all add: js_def is_white_space_def)
  have t2: "trim (0x61 # replicate 49 0x61) = 0x61 # replicate 49 0x61"
    by (rule trim_id) (simp_all add: is_white_space_def)
  have t3: "trim (js ''sk-ant-'' @ replicate 43 0x61) = js ''sk-ant-'' @ replicate 43 0x61"
    by (rule trim_id) (simp_all add: js_def is_white_space_def)
  have p1: "\<not> prefix (js ''sk-ant-'') (js ''short'')"
    by (simp add: js_def)
  have p2: "\<not> prefix (js ''sk-ant-'') (0x61 # replicate 49 0x61)"
    by (simp add: js_def)
  have l3: "50 \<le> length (js ''sk-ant-'' @ replicate 43 (0x61 :: 16 word))"
    by (simp add: js_def)
  have n1: "js ''short'' \<noteq> []"
    by (simp add: js_def)
  have a: "map status (results (checkAnthropicKey env0 initial)) = [Fail]"
    using checkAnthropicKey_status [of env0 initial]
    by (auto simp add: env0_def initial_def)
  have b: "map status (results (checkAnthropicKey
      (env0\<lparr>ANTHROPIC_API_KEY := Some (js ''short'')\<rparr>) initial)) = [Warn]"
    using checkAnthropicKey_status [of "env0\<lparr>ANTHROPIC_API_KEY := Some (js ''short'')\<rparr>" initial]
      p1 n1
    by (auto simp add: t1 initial_def)
  have c: "map status (results (checkAnthropicKey
      (env0\<lparr>ANTHROPIC_API_KEY := Some (0x61 # replicate 49 0x61)\<rparr>) initial)) = [Warn]"
    using checkAnthropicKey_status
      [of "env0\<lparr>ANTHROPIC_API_KEY := Some (0x61 # replicate 49 0x61)\<rparr>" initial] p2
    by (auto simp add: t2 initial_def)
  have d: "map status (results (checkAnthropicKey
      (env0\<lparr>ANTHROPIC_API_KEY := Some (js ''sk-ant-'' @ replicate 43 0x61)\<rparr>) initial)) = [Pass]"
    using checkAnthropicKey_status
      [of "env0\<lparr>ANTHROPIC_API_KEY := Some (js ''sk-ant-'' @ replicate 43 0x61)\<rparr>" initial] l3
    by (auto simp add: t3 initial_def)
  from a b c d show ?thesis by blast
qed

text \<open>
  C3. For every value of the environment variable, \<open>checkGeminiKey\<close> appends exactly one
  result. Its status is fail when the variable is unset or trims to the empty string, warn
  when the trimmed value is shorter than 30, and pass otherwise; no prefix is looked at.
\<close>

theorem checkGeminiKey_status:
  "\<exists>r. results (checkGeminiKey e s) = results s @ [r] \<and>
     (let key = map_option trim (GEMINI_API_KEY e) in
       (key = None \<or> key = Some [] \<longrightarrow> status r = Fail) \<and>
       (\<forall>k. key = Some k \<and> k \<noteq> [] \<and> length k < 30 \<longrightarrow> status r = Warn) \<and>
       (\<forall>k. key = Some k \<and> 30 \<le> length k \<longrightarrow> status r = Pass))"
proof (cases "map_option trim (GEMINI_API_KEY e)")
  case None
  then show ?thesis
    by (simp add: checkGeminiKey_def results_log)
next
  case (Some k)
  then show ?thesis
    by (auto simp add: checkGeminiKey_def results_log Let_def)
qed

text \<open>The cases the specification lists: unset, ten letters, forty letters.\<close>

theorem checkGeminiKey_status_witness:
  "map status (results (checkGeminiKey env0 initial)) = [Fail] \<and>
   map status (results (checkGeminiKey
      (env0\<lparr>GEMINI_API_KEY := Some (0x41 # replicate 9 0x41)\<rparr>) initial)) = [Warn] \<and>
   map status (results (checkGeminiKey
      (env0\<lparr>GEMINI_API_KEY := Some (0x41 # replicate 39 0x41)\<rparr>) initial)) = [Pass]"
proof -
  have t: "trim (0x41 # replicate n 0x41) = 0x41 # replicate n 0x41" for n
    by (rule trim_id) (simp_all add: is_white_space_def)
  have a: "map status (results (checkGeminiKey env0 initial)) = [Fail]"
    using checkGeminiKey_status [of env0 initial]
    by (auto simp add: env0_def initial_def)
  have b: "map status (results (checkGeminiKey
      (env0\<lparr>GEMINI_API_KEY := Some (0x41 # replicate 9 0x41)\<rparr>) initial)) = [Warn]"
    using checkGeminiKey_status [of "env0\<lparr>GEMINI_API_KEY := Some (0x41 # replicate 9 0x41)\<rparr>" initial]
    by (auto simp add: t initial_def)
  have c: "map status (results (checkGeminiKey
      (env0\<lparr>GEMINI_API_KEY := Some (0x41 # replicate 39 0x41)\<rparr>) initial)) = [Pass]"
    using checkGeminiKey_status [of "env0\<lparr>GEMINI_API_KEY := Some (0x41 # replicate 39 0x41)\<rparr>" initial]
    by (auto simp add: t initial_def)
  from a b c show ?thesis by blast
qed

text \<open>
  C9. In \<open>checkAnthropicKey\<close> the prefix test comes before the length test: a non-empty
  trimmed value that does not start with \<open>sk-ant-\<close> gets the warning about the unusual
  format, whatever its length, and the warning about a short key is the appended result
  exactly when the trimmed value starts with \<open>sk-ant-\<close> and is shorter than 50.
\<close>

theorem checkAnthropicKey_prefix_first:
  "(\<forall>v. ANTHROPIC_API_KEY e = Some v \<and> trim v \<noteq> [] \<and> \<not> prefix (js ''sk-ant-'') (trim v) \<longrightarrow>
      results (checkAnthropicKey e s) = results s @
        [\<lparr>name = js ''Anthropic API Key'', status = Warn,
          message = js ''Key format looks unusual (should start with sk-ant-)''\<rparr>]) \<and>
   (results (checkAnthropicKey e s) = results s @
        [\<lparr>name = js ''Anthropic API Key'', status = Warn,
          message = js ''Key seems too short. Make sure you copied the full key.''\<rparr>]
    \<longleftrightarrow> (\<exists>v. ANTHROPIC_API_KEY e = Some v \<and> prefix (js ''sk-ant-'') (trim v) \<and> length (trim v) < 50))"
proof (cases "ANTHROPIC_API_KEY e")
  case None
  then show ?thesis
    by (simp add: checkAnthropicKey_def results_log)
next
  case (Some v)
  have ne: "prefix (js ''sk-ant-'') (trim v) \<Longrightarrow> trim v \<noteq> []"
    using sk_ant_nonempty by auto
  have m: "js ''Key format looks unusual (should start with sk-ant-)'' \<noteq>
           js ''Key seems too short. Make sure you copied the full key.''"
    by (simp add: js_def)
  from Some ne m show ?thesis
    by (auto simp add: checkAnthropicKey_def results_log startsWith_def Let_def)
qed

text \<open>
  A four-letter key gets the format warning although it is shorter than 50; \<open>sk-ant-x\<close>
  gets the warning about a short key.
\<close>

theorem checkAnthropicKey_prefix_first_witness:
  "length (trim (js ''abcd'')) < 50 \<and>
   results (checkAnthropicKey (env0\<lparr>ANTHROPIC_API_KEY := Some (js ''abcd'')\<rparr>) initial) =
     [\<lparr>name = js ''Anthropic API Key'', status = Warn,
       message = js ''Key format looks unusual (should start with sk-ant-)''\<rparr>] \<and>
   results (checkAnthropicKey (env0\<lparr>ANTHROPIC_API_KEY := Some (js ''sk-ant-x'')\<rparr>) initial) =
     [\<lparr>name = js ''Anthropic API Key'', status = Warn,
       message = js ''Key seems too short. Make sure you copied the full key.''\<rparr>]"
proof -
  have t1: "trim (js ''abcd'') = js ''abcd''"
    by (rule trim_id) (simp_all add: js_def is_white_space_def)
  have t2: "trim (js ''sk-ant-x'') = js ''sk-ant-x''"
    by (rule trim_id) (simp_all add: js_def is_white_space_def)
  have f1: "js ''abcd'' \<noteq> [] \<and> \<not> prefix (js ''sk-ant-'') (js ''abcd'') \<and> length (js ''abcd'') < 50"
    by (simp add: js_def)
  have f2: "prefix (js ''sk-ant-'') (js ''sk-ant-x'') \<and> length (js ''sk-ant-x'') < 50"
    by (simp add: js_def)
  have a: "results (checkAnthropicKey (env0\<lparr>ANTHROPIC_API_KEY := Some (js ''abcd'')\<rparr>) initial) =
     [\<lparr>name = js ''Anthropic API Key'', status = Warn,
       message = js ''Key format looks unusual (should start with sk-ant-)''\<rparr>]"
    using checkAnthropicKey_prefix_first
      [of "env0\<lparr>ANTHROPIC_API_KEY := Some (js ''abcd'')\<rparr>" initial] f1
    by (simp add: t1 initial_def)
  have b: "results (checkAnthropicKey (env0\<lparr>ANTHROPIC_API_KEY := Some (js ''sk-ant-x'')\<rparr>) initial) =
     [\<lparr>name = js ''Anthropic API Key'', status = Warn,
       message = js ''Key seems too short. Make sure you copied the full key.''\<rparr>]"
    using checkAnthropicKey_prefix_first
      [of "env0\<lparr>ANTHROPIC_API_KEY := Some (js ''sk-ant-x'')\<rparr>" initial] f2
    by (simp add: t2 initial_def)
  from a b f1 t1 show ?thesis by simp
qed

section \<open>The runtime version probe\<close>

lemma is_radix_digit_10: "is_radix_digit 10 c = is_dec_digit c"
  unfolding is_radix_digit_def digit_val_def is_dec_digit_def word_le_nat_alt
  by (auto split: option.splits)

lemma dec_digit_not_space: "is_dec_digit c \<Longrightarrow> \<not> is_white_space c"
  unfolding is_dec_digit_def is_white_space_def word_le_nat_alt
  by auto

lemma dec_digit_not_mark:
  "is_dec_digit c \<Longrightarrow> c \<noteq> 0x2B \<and> c \<noteq> 0x2D \<and> c \<noteq> 0x2E \<and> c \<noteq> 0x78 \<and> c \<noteq> 0x58"
  unfolding is_dec_digit_def word_le_nat_alt
  by auto

lemma digit_val_dec: "is_dec_digit c \<Longrightarrow> digit_val c = Some (unat c - 48)"
  by (simp add: digit_val_def is_dec_digit_def)

lemma digits_value_decimal_aux:
  "\<forall>d\<in>set ds. is_dec_digit d \<Longrightarrow>
   foldl (\<lambda>acc c. acc * 10 + (case digit_val c of None \<Rightarrow> 0 | Some d \<Rightarrow> d)) a ds =
   foldl (\<lambda>acc d. 10 * acc + (unat d - 48)) a ds"
  by (induction ds arbitrary: a) (simp_all add: digit_val_dec mult.commute)

lemma digits_value_decimal:
  "\<forall>d\<in>set ds. is_dec_digit d \<Longrightarrow> digits_value 10 ds = decimal_value ds"
  unfolding digits_value_def decimal_value_def by (rule digits_value_decimal_aux)

lemma takeWhile_run:
  assumes "\<forall>d\<in>set ds. P d" "r = [] \<or> \<not> P (hd r)"
  shows "takeWhile P (ds @ r) = ds"
  using assms by (cases r) (simp_all add: takeWhile_append2)

lemma parseInt_decimal:
  assumes ds: "ds \<noteq> []" "\<forall>d\<in>set ds. is_dec_digit d"
    and r: "r = [] \<or> (\<not> is_dec_digit (hd r) \<and> \<not> (ds = [0x30] \<and> (hd r = 0x78 \<or> hd r = 0x58)))"
  shows "parseInt (ds @ r) = Some (int (decimal_value ds))"
proof -
  obtain d ds' where dd: "ds = d # ds'"
    using ds(1) by (cases ds) auto
  have d: "is_dec_digit d"
    using ds(2) dd by simp
  have nohex: "\<not> (take 2 (ds @ r) = js ''0x'' \<or> take 2 (ds @ r) = js ''0X'')"
  proof (cases ds')
    case Nil
    with dd r show ?thesis by (cases r) (auto simp add: js_def)
  next
    case (Cons d2 ds2)
    with ds(2) dd have "is_dec_digit d2" by simp
    with dd Cons show ?thesis
      using dec_digit_not_mark [of d2] by (simp add: js_def)
  qed
  have tw: "takeWhile (is_radix_digit 10) (ds @ r) = ds"
    using ds(2) r by (intro takeWhile_run) (auto simp add: is_radix_digit_10)
  have dw: "dropWhile is_white_space (ds @ r) = ds @ r"
    using dd d dec_digit_not_space by simp
  have hd: "hd (ds @ r) = d"
    using dd by simp
  show ?thesis
    using nohex ds(1) dec_digit_not_mark [OF d]
    by (simp add: parseInt_def dw hd tw Let_def digits_value_decimal [OF ds(2)])
qed

lemma take_2_takeWhile:
  assumes "2 \<le> length (takeWhile Q xs)"
  shows "take 2 xs = take 2 (takeWhile Q xs)"
proof -
  have "take 2 (takeWhile Q xs @ dropWhile Q xs) = take 2 (takeWhile Q xs)"
    using assms by (simp del: takeWhile_dropWhile_id)
  then show ?thesis by simp
qed

lemma major_of_numeric_prefix:
  assumes "numeric_prefix v \<noteq> []" "\<not> hex_marked v"
  shows "major_of v = Some (int (decimal_value (numeric_prefix v)))"
proof -
  define seg where "seg = split_dot_0 (slice_1 v)"
  define ds where "ds = takeWhile is_dec_digit seg"
  define r where "r = dropWhile is_dec_digit seg"
  have seg: "seg = ds @ r"
    by (simp add: ds_def r_def)
  have np: "numeric_prefix v = ds"
    by (simp add: numeric_prefix_def ds_def seg_def)
  have ne: "ds \<noteq> []"
    using assms(1) np by simp
  have d: "\<forall>d\<in>set ds. is_dec_digit d"
    unfolding ds_def by (auto dest: set_takeWhileD)
  have r1: "r \<noteq> [] \<Longrightarrow> \<not> is_dec_digit (hd r)"
    unfolding r_def using hd_dropWhile [of is_dec_digit seg] by blast
  have nh: "\<not> (ds = [0x30] \<and> (hd r = 0x78 \<or> hd r = 0x58))" if rne: "r \<noteq> []"
  proof
    assume h: "ds = [0x30] \<and> (hd r = 0x78 \<or> hd r = 0x58)"
    obtain c cs where r: "r = c # cs"
      using rne by (cases r) auto
    have m: "take 2 seg = js ''0x'' \<or> take 2 seg = js ''0X''"
      using h r seg by (auto simp add: js_def)
    have "2 \<le> length seg"
      using h r seg by simp
    then have "take 2 (slice_1 v) = take 2 seg"
      unfolding seg_def split_dot_0_def by (rule take_2_takeWhile)
    with m assms(2) show False
      by (simp add: hex_marked_def)
  qed
  have "r = [] \<or> (\<not> is_dec_digit (hd r) \<and> \<not> (ds = [0x30] \<and> (hd r = 0x78 \<or> hd r = 0x58)))"
    using r1 nh by blast
  from parseInt_decimal [OF ne d this] show ?thesis
    by (simp add: major_of_def np seg [symmetric] seg_def)
qed

lemma major_of_hex_20: "major_of (js ''v0x20.1.0'') = Some 32"
  by (simp add: major_of_def slice_1_def split_dot_0_def js_def parseInt_def Let_def
      is_white_space_def is_radix_digit_def digit_val_def digits_value_def)

lemma parseInt_no_digit:
  assumes "unsigned_part seg = [] \<or> \<not> is_dec_digit (hd (unsigned_part seg))"
  shows "parseInt seg = None"
proof -
  define S1 where "S1 = unsigned_part seg"
  have a: "S1 = [] \<or> \<not> is_dec_digit (hd S1)"
    using assms by (simp add: S1_def)
  have nohex: "\<not> (2 \<le> length S1 \<and> (take 2 S1 = js ''0x'' \<or> take 2 S1 = js ''0X''))"
  proof (cases S1)
    case Nil
    then show ?thesis by simp
  next
    case (Cons c cs)
    with a have "\<not> is_dec_digit c" by simp
    then have "c \<noteq> 0x30" by (auto simp add: is_dec_digit_def)
    with Cons show ?thesis by (cases cs) (auto simp add: js_def)
  qed
  have tw: "takeWhile (is_radix_digit 10) S1 = []"
    using a by (cases S1) (auto simp add: is_radix_digit_10)
  have "parseInt seg =
     (let hex = (2 \<le> length S1 \<and> (take 2 S1 = js ''0x'' \<or> take 2 S1 = js ''0X''));
          Z = takeWhile (is_radix_digit (if hex then 16 else 10)) (if hex then drop 2 S1 else S1)
      in if Z = [] then None
         else Some ((if dropWhile is_white_space seg \<noteq> [] \<and> hd (dropWhile is_white_space seg) = 0x2D
                     then - 1 else 1) * int (digits_value (if hex then 16 else 10) Z)))"
    unfolding parseInt_def S1_def unsigned_part_def Let_def by (rule refl)
  also have "\<dots> = None"
    using nohex tw by (simp only: Let_def if_False if_True simp_thms)
  finally show ?thesis .
qed

lemma dropWhile_takeWhile_commute:
  "(\<And>x. P x \<Longrightarrow> Q x) \<Longrightarrow> dropWhile P (takeWhile Q xs) = takeWhile Q (dropWhile P xs)"
  by (induction xs) auto

lemma white_space_not_dot: "is_white_space c \<Longrightarrow> c \<noteq> 0x2E"
  by (auto simp add: is_white_space_def)

lemma unsigned_part_split_dot_0: "unsigned_part (split_dot_0 s) = split_dot_0 (unsigned_part s)"
proof -
  define S where "S = dropWhile is_white_space s"
  have c: "dropWhile is_white_space (split_dot_0 s) = split_dot_0 S"
    unfolding split_dot_0_def S_def
    by (rule dropWhile_takeWhile_commute) (rule white_space_not_dot)
  show ?thesis
    unfolding unsigned_part_def Let_def c S_def [symmetric]
    by (cases S) (auto simp add: split_dot_0_def)
qed

lemma no_digit_split_dot_0:
  "(split_dot_0 u = [] \<or> \<not> is_dec_digit (hd (split_dot_0 u))) \<longleftrightarrow>
   (u = [] \<or> \<not> is_dec_digit (hd u))"
  by (cases u) (auto simp add: split_dot_0_def is_dec_digit_def)

lemma major_of_no_digit:
  assumes "unsigned_part (slice_1 v) = [] \<or> \<not> is_dec_digit (hd (unsigned_part (slice_1 v)))"
  shows "major_of v = None"
  unfolding major_of_def
  using assms
  by (intro parseInt_no_digit) (simp only: unsigned_part_split_dot_0 no_digit_split_dot_0)

lemma major_of_plus_20: "major_of (js ''v+20.0.0'') = Some 20"
  by (simp add: major_of_def slice_1_def split_dot_0_def js_def parseInt_def Let_def
      is_white_space_def is_radix_digit_def digit_val_def digits_value_def)

text \<open>
  C4, as the specification has it, fails: in \<open>v0x20.1.0\<close> the numeric prefix before the
  first dot, the leading character stripped, is \<open>0\<close>, below 18, yet \<open>parseInt\<close> reads
  the hexadecimal number 32 and the probe passes.
\<close>

theorem checkNodeVersion_hex_counterexample:
  "numeric_prefix (js ''v0x20.1.0'') = js ''0'' \<and> decimal_value (js ''0'') < 18 \<and>
   map status (results (checkNodeVersion (env0\<lparr>version := js ''v0x20.1.0''\<rparr>) initial)) = [Pass]"
  by (simp add: checkNodeVersion_def results_log major_of_hex_20 env0_def initial_def)
    (simp add: numeric_prefix_def split_dot_0_def slice_1_def js_def is_dec_digit_def
      decimal_value_def)

text \<open>
  C4, amended. For every version string whose text after the leading character begins
  with a decimal digit and not with the hexadecimal marker \<open>0x\<close> or \<open>0X\<close>, the probe
  appends one result, which is pass when the decimal value of the numeric prefix before
  the first dot is at least 18 and fail when it is below. That value is the parsed major
  version whenever it is below \<open>2 ^ 53\<close>, where every integer is a double.
\<close>

theorem checkNodeVersion_major:
  "numeric_prefix (version e) \<noteq> [] \<Longrightarrow> \<not> hex_marked (version e) \<Longrightarrow>
   \<exists>r. results (checkNodeVersion e s) = results s @ [r] \<and>
     status r = (if 18 \<le> decimal_value (numeric_prefix (version e)) then Pass else Fail) \<and>
     (decimal_value (numeric_prefix (version e)) < 2 ^ 53 \<longrightarrow>
        major_of (version e) = Some (int (decimal_value (numeric_prefix (version e)))))"
proof -
  assume "numeric_prefix (version e) \<noteq> []" "\<not> hex_marked (version e)"
  then have m: "major_of (version e) = Some (int (decimal_value (numeric_prefix (version e))))"
    by (rule major_of_numeric_prefix)
  show ?thesis
  proof (cases "18 \<le> decimal_value (numeric_prefix (version e))")
    case True
    with m show ?thesis
      by (simp add: checkNodeVersion_def results_log Let_def)
  next
    case False
    with m show ?thesis
      by (simp add: checkNodeVersion_def results_log Let_def)
  qed
qed

text \<open>The versions the specification lists: major 17, 18 and 20.\<close>

theorem checkNodeVersion_major_witness:
  "numeric_prefix (js ''v17.9.1'') = js ''17'' \<and>
   major_of (js ''v17.9.1'') = Some 17 \<and>
   map status (results (checkNodeVersion (env0\<lparr>version := js ''v17.9.1''\<rparr>) initial)) = [Fail] \<and>
   numeric_prefix (js ''v18.0.0'') = js ''18'' \<and>
   major_of (js ''v18.0.0'') = Some 18 \<and>
   map status (results (checkNodeVersion (env0\<lparr>version := js ''v18.0.0''\<rparr>) initial)) = [Pass] \<and>
   numeric_prefix (js ''v20.11.0'') = js ''20'' \<and>
   major_of (js ''v20.11.0'') = Some 20 \<and>
   map status (results (checkNodeVersion (env0\<lparr>version := js ''v20.11.0''\<rparr>) initial)) = [Pass]"
proof -
  have n: "numeric_prefix (js ''v17.9.1'') = js ''17''"
    "numeric_prefix (js ''v18.0.0'') = js ''18''"
    "numeric_prefix (js ''v20.11.0'') = js ''20''"
    by (simp_all add: numeric_prefix_def split_dot_0_def slice_1_def js_def is_dec_digit_def)
  have h: "\<not> hex_marked (js ''v17.9.1'')" "\<not> hex_marked (js ''v18.0.0'')"
    "\<not> hex_marked (js ''v20.11.0'')"
    by (simp_all add: hex_marked_def slice_1_def js_def)
  have d: "decimal_value (js ''17'') = 17" "decimal_value (js ''18'') = 18"
    "decimal_value (js ''20'') = 20"
    by (simp_all add: js_def decimal_value_def)
  have k: "js ''17'' \<noteq> []" "js ''18'' \<noteq> []" "js ''20'' \<noteq> []"
    by (simp_all add: js_def)
  have a: "major_of (js ''v17.9.1'') = Some 17 \<and>
    map status (results (checkNodeVersion (env0\<lparr>version := js ''v17.9.1''\<rparr>) initial)) = [Fail]"
    using checkNodeVersion_major [of "env0\<lparr>version := js ''v17.9.1''\<rparr>" initial] h(1) k(1)
    by (auto simp add: n d initial_def)
  have b: "major_of (js ''v18.0.0'') = Some 18 \<and>
    map status (results (checkNodeVersion (env0\<lparr>version := js ''v18.0.0''\<rparr>) initial)) = [Pass]"
    using checkNodeVersion_major [of "env0\<lparr>version := js ''v18.0.0''\<rparr>" initial] h(2) k(2)
    by (auto simp add: n d initial_def)
  have c: "major_of (js ''v20.11.0'') = Some 20 \<and>
    map status (results (checkNodeVersion (env0\<lparr>version := js ''v20.11.0''\<rparr>) initial)) = [Pass]"
    using checkNodeVersion_major [of "env0\<lparr>version := js ''v20.11.0''\<rparr>" initial] h(3) k(3)
    by (auto simp add: n d initial_def)
  from a b c n show ?thesis by simp
qed

text \<open>
  C10, as the specification has it, fails: in \<open>v+20.0.0\<close> the text after the leading
  character begins with a sign, not a digit, yet \<open>parseInt\<close> reads 20 and the probe passes.
\<close>

theorem checkNodeVersion_sign_counterexample:
  "slice_1 (js ''v+20.0.0'') \<noteq> [] \<and> \<not> is_dec_digit (hd (slice_1 (js ''v+20.0.0''))) \<and>
   map status (results (checkNodeVersion (env0\<lparr>version := js ''v+20.0.0''\<rparr>) initial)) = [Pass]"
  by (simp add: checkNodeVersion_def results_log major_of_plus_20 env0_def initial_def)
    (simp add: slice_1_def js_def is_dec_digit_def)

text \<open>
  C10, amended. The probe appends one result, pass or fail, and it is pass exactly when a
  major version is parsed and is at least 18. When the text after the leading character,
  once leading white space and one sign are skipped, is empty or does not begin with a
  decimal digit, no number is parsed and the result is fail.
\<close>

theorem checkNodeVersion_no_number:
  "\<exists>r. results (checkNodeVersion e s) = results s @ [r] \<and>
     (status r = Pass \<or> status r = Fail) \<and>
     (status r = Pass \<longleftrightarrow> (\<exists>m. major_of (version e) = Some m \<and> 18 \<le> m)) \<and>
     (let S1 = unsigned_part (slice_1 (version e))
      in S1 = [] \<or> \<not> is_dec_digit (hd S1) \<longrightarrow> major_of (version e) = None \<and> status r = Fail)"
proof (cases "major_of (version e)")
  case None
  then show ?thesis
    by (simp add: checkNodeVersion_def results_log Let_def)
next
  case (Some m)
  then have "\<not> (let S1 = unsigned_part (slice_1 (version e))
      in S1 = [] \<or> \<not> is_dec_digit (hd S1))"
    using major_of_no_digit [of "version e"]
    by (auto simp add: Let_def)
  with Some show ?thesis
    by (simp add: checkNodeVersion_def results_log Let_def)
qed

text \<open>The version string \<open>vNext.1\<close> has no number after the leading character.\<close>

theorem checkNodeVersion_no_number_witness:
  "unsigned_part (slice_1 (js ''vNext.1'')) = js ''Next.1'' \<and>
   \<not> is_dec_digit (hd (js ''Next.1'')) \<and>
   map status (results (checkNodeVersion (env0\<lparr>version := js ''vNext.1''\<rparr>) initial)) = [Fail]"
proof -
  have u: "unsigned_part (slice_1 (js ''vNext.1'')) = js ''Next.1''"
    by (simp add: unsigned_part_def slice_1_def js_def is_white_space_def)
  have d: "\<not> is_dec_digit (hd (js ''Next.1''))"
    by (simp add: js_def is_dec_digit_def)
  show ?thesis
    using checkNodeVersion_no_number [of "env0\<lparr>version := js ''vNext.1''\<rparr>" initial] u d
    by (auto simp add: Let_def initial_def env0_def)
qed

section \<open>The run as a whole\<close>

lemma exited_probes:
  "exited (checkNodeVersion e s) = exited s"
  "exited (checkAnthropicKey e s) = exited s"
  "exited (checkGeminiKey e s) = exited s"
  "exited (checkDirectories e s) = exited s"
  "exited (checkPlaywright e s) = exited s"
  "exited (checkNetwork e s) = exited s"
  by (simp_all add: checkNodeVersion_def checkAnthropicKey_def checkGeminiKey_def
      checkDirectories_def checkDirectory_def dirs_def checkPlaywright_def checkNetwork_def
      exited_log Let_def split: option.splits)

lemma exited_main_probes: "exited (main_probes e s) = exited s"
  by (simp add: main_probes_def exited_probes console_log_def)

lemma results_main_summary: "results (main_summary s) = results s"
  by (simp add: main_summary_def console_log_def Let_def)

lemma appended_NodeVersion:
  "\<exists>r. results (checkNodeVersion e s) = results s @ [r] \<and> name r = js ''Node.js Version'' \<and>
     status r = (if (case major_of (version e) of None \<Rightarrow> False | Some m \<Rightarrow> 18 \<le> m)
                 then Pass else Fail)"
  by (simp add: checkNodeVersion_def results_log Let_def)

lemma appended_AnthropicKey:
  "\<exists>r. results (checkAnthropicKey e s) = results s @ [r] \<and> name r = js ''Anthropic API Key'' \<and>
     status r = (case map_option trim (ANTHROPIC_API_KEY e) of
                   None \<Rightarrow> Fail
                 | Some k \<Rightarrow> if k = [] then Fail
                             else if \<not> startsWith k (js ''sk-ant-'') then Warn
                             else if length k < 50 then Warn else Pass)"
  by (simp add: checkAnthropicKey_def results_log Let_def split: option.splits)

lemma appended_GeminiKey:
  "\<exists>r. results (checkGeminiKey e s) = results s @ [r] \<and> name r = js ''Gemini API Key'' \<and>
     status r = (case map_option trim (GEMINI_API_KEY e) of
                   None \<Rightarrow> Fail
                 | Some k \<Rightarrow> if k = [] then Fail else if length k < 30 then Warn else Pass)"
  by (simp add: checkGeminiKey_def results_log Let_def split: option.splits)

lemma appended_Directory:
  "\<exists>r. results (checkDirectory e s d) = results s @ [r] \<and> name r = js ''Directory '' @ d \<and>
     status r = (if first_rejection [ensureDir e d, access_W_OK e d] = None then Pass else Fail)"
  by (simp add: checkDirectory_def results_log split: option.splits)

lemma appended_Directories:
  "\<exists>r1 r2. results (checkDirectories e s) = results s @ [r1, r2] \<and>
     name r1 = js ''Directory ./cloned-pages'' \<and> name r2 = js ''Directory ./screenshots'' \<and>
     status r1 = (if first_rejection [ensureDir e (js ''./cloned-pages''),
                                      access_W_OK e (js ''./cloned-pages'')] = None
                  then Pass else Fail) \<and>
     status r2 = (if first_rejection [ensureDir e (js ''./screenshots''),
                                      access_W_OK e (js ''./screenshots'')] = None
                  then Pass else Fail)"
proof -
  define s1 where "s1 = checkDirectory e s (js ''./cloned-pages'')"
  obtain r1 where r1: "results s1 = results s @ [r1]"
    "name r1 = js ''Directory '' @ js ''./cloned-pages''"
    "status r1 = (if first_rejection [ensureDir e (js ''./cloned-pages''),
                                      access_W_OK e (js ''./cloned-pages'')] = None
                  then Pass else Fail)"
    unfolding s1_def using appended_Directory by blast
  obtain r2 where r2: "results (checkDirectory e s1 (js ''./screenshots'')) = results s1 @ [r2]"
    "name r2 = js ''Directory '' @ js ''./screenshots''"
    "status r2 = (if first_rejection [ensureDir e (js ''./screenshots''),
                                      access_W_OK e (js ''./screenshots'')] = None
                  then Pass else Fail)"
    using appended_Directory by blast
  have "checkDirectories e s = checkDirectory e s1 (js ''./screenshots'')"
    by (simp add: checkDirectories_def dirs_def s1_def)
  moreover have "js ''Directory '' @ js ''./cloned-pages'' = js ''Directory ./cloned-pages''"
    "js ''Directory '' @ js ''./screenshots'' = js ''Directory ./screenshots''"
    by (simp_all add: js_def)
  ultimately show ?thesis
    using r1 r2 by simp
qed

lemma appended_Playwright:
  "\<exists>r. results (checkPlaywright e s) = results s @ [r] \<and> name r = js ''Playwright Browser'' \<and>
     status r = (if first_rejection [playwright_launch e, playwright_close e] = None
                 then Pass else Fail)"
  by (simp add: checkPlaywright_def results_log split: option.splits)

lemma appended_Network:
  "\<exists>r. results (checkNetwork e s) = results s @ [r] \<and> name r = js ''Network Access'' \<and>
     status r = (if first_rejection [network_launch e, network_newPage e,
                                     network_goto e, network_close e] = None
                 then Pass else Fail)"
  by (simp add: checkNetwork_def results_log split: option.splits)

lemma results_main_probes:
  "\<exists>a b c d1 d2 f g.
     results (main_probes e s) = results s @ [a, b, c, d1, d2, f, g] \<and>
     map name [a, b, c, d1, d2, f, g] =
       [js ''Node.js Version'', js ''Anthropic API Key'', js ''Gemini API Key'',
        js ''Directory ./cloned-pages'', js ''Directory ./screenshots'',
        js ''Playwright Browser'', js ''Network Access''] \<and>
     map status [a, b, c, d1, d2, f, g] =
       [if (case major_of (version e) of None \<Rightarrow> False | Some m \<Rightarrow> 18 \<le> m) then Pass else Fail,
        case map_option trim (ANTHROPIC_API_KEY e) of
          None \<Rightarrow> Fail
        | Some k \<Rightarrow> if k = [] then Fail
                    else if \<not> startsWith k (js ''sk-ant-'') then Warn
                    else if length k < 50 then Warn else Pass,
        case map_option trim (GEMINI_API_KEY e) of
          None \<Rightarrow> Fail
        | Some k \<Rightarrow> if k = [] then Fail else if length k < 30 then Warn else Pass,
        if first_rejection [ensureDir e (js ''./cloned-pages''),
                            access_W_OK e (js ''./cloned-pages'')] = None then Pass else Fail,
        if first_rejection [ensureDir e (js ''./screenshots''),
                            access_W_OK e (js ''./screenshots'')] = None then Pass else Fail,
        if first_rejection [playwright_launch e, playwright_close e] = None then Pass else Fail,
        if first_rejection [network_launch e, network_newPage e,
                            network_goto e, network_close e] = None then Pass else Fail]"
proof -
  define s0 where "s0 = console_log banner s"
  define s1 where "s1 = checkNodeVersion e s0"
  define s2 where "s2 = checkAnthropicKey e s1"
  define s3 where "s3 = checkGeminiKey e s2"
  define s4 where "s4 = checkDirectories e s3"
  define s5 where "s5 = checkPlaywright e s4"
  have r0: "results s0 = results s"
    by (simp add: s0_def console_log_def)
  obtain a where a: "results s1 = results s0 @ [a]" "name a = js ''Node.js Version''"
    "status a = (if (case major_of (version e) of None \<Rightarrow> False | Some m \<Rightarrow> 18 \<le> m)
                 then Pass else Fail)"
    unfolding s1_def using appended_NodeVersion by blast
  obtain b where b: "results s2 = results s1 @ [b]" "name b = js ''Anthropic API Key''"
    "status b = (case map_option trim (ANTHROPIC_API_KEY e) of
                   None \<Rightarrow> Fail
                 | Some k \<Rightarrow> if k = [] then Fail
                             else if \<not> startsWith k (js ''sk-ant-'') then Warn
                             else if length k < 50 then Warn else Pass)"
    unfolding s2_def using appended_AnthropicKey by blast
  obtain c where c: "results s3 = results s2 @ [c]" "name c = js ''Gemini API Key''"
    "status c = (case map_option trim (GEMINI_API_KEY e) of
                   None \<Rightarrow> Fail
                 | Some k \<Rightarrow> if k = [] then Fail else if length k < 30 then Warn else Pass)"
    unfolding s3_def using appended_GeminiKey by blast
  obtain d1 d2 where d: "results s4 = results s3 @ [d1, d2]"
    "name d1 = js ''Directory ./cloned-pages''" "name d2 = js ''Directory ./screenshots''"
    "status d1 = (if first_rejection [ensureDir e (js ''./cloned-pages''),
                                      access_W_OK e (js ''./cloned-pages'')] = None
                  then Pass else Fail)"
    "status d2 = (if first_rejection [ensureDir e (js ''./screenshots''),
                                      access_W_OK e (js ''./screenshots'')] = None
                  then Pass else Fail)"
    unfolding s4_def using appended_Directories by blast
  obtain f where f: "results s5 = results s4 @ [f]" "name f = js ''Playwright Browser''"
    "status f = (if first_rejection [playwright_launch e, playwright_close e] = None
                 then Pass else Fail)"
    unfolding s5_def using appended_Playwright by blast
  obtain g where g: "results (checkNetwork e s5) = results s5 @ [g]" "name g = js ''Network Access''"
    "status g = (if first_rejection [network_launch e, network_newPage e,
                                     network_goto e, network_close e] = None
                 then Pass else Fail)"
    using appended_Network by blast
  have m: "main_probes e s = checkNetwork e s5"
    by (simp add: main_probes_def s0_def s1_def s2_def s3_def s4_def s5_def)
  have "results (main_probes e s) = results s @ [a, b, c, d1, d2, f, g]"
    by (simp only: m g(1) f(1) d(1) c(1) b(1) a(1) r0 append_assoc append.simps)
  moreover have "map name [a, b, c, d1, d2, f, g] =
       [js ''Node.js Version'', js ''Anthropic API Key'', js ''Gemini API Key'',
        js ''Directory ./cloned-pages'', js ''Directory ./screenshots'',
        js ''Playwright Browser'', js ''Network Access'']"
    by (simp only: list.map a(2) b(2) c(2) d(2,3) f(2) g(2))
  moreover note a(3) b(3) c(3) d(4,5) f(3) g(3)
  ultimately show ?thesis
    by (intro exI conjI) (assumption, assumption, simp only: list.map)
qed

text \<open>
  C5. Each probe appends exactly one result to whatever the results array holds, the
  directory probe two (one for each of its two paths). Whatever the environment, and so
  whichever probes fail, a run ends with seven results, in the order runtime version,
  primary key, secondary key, the two directories, browser, network.
\<close>

theorem main_seven_results:
  "(\<exists>r. results (checkNodeVersion e s) = results s @ [r]) \<and>
   (\<exists>r. results (checkAnthropicKey e s) = results s @ [r]) \<and>
   (\<exists>r. results (checkGeminiKey e s) = results s @ [r]) \<and>
   (\<exists>r1 r2. results (checkDirectories e s) = results s @ [r1, r2]) \<and>
   (\<exists>r. results (checkPlaywright e s) = results s @ [r]) \<and>
   (\<exists>r. results (checkNetwork e s) = results s @ [r]) \<and>
   length dirs = 2 \<and>
   length (results (main e)) = 7 \<and>
   map name (results (main e)) =
     [js ''Node.js Version'', js ''Anthropic API Key'', js ''Gemini API Key'',
      js ''Directory ./cloned-pages'', js ''Directory ./screenshots'',
      js ''Playwright Browser'', js ''Network Access'']"
proof -
  obtain a b c d1 d2 f g where m: "results (main_probes e initial) = results initial @ [a, b, c, d1, d2, f, g]"
    "map name [a, b, c, d1, d2, f, g] =
       [js ''Node.js Version'', js ''Anthropic API Key'', js ''Gemini API Key'',
        js ''Directory ./cloned-pages'', js ''Directory ./screenshots'',
        js ''Playwright Browser'', js ''Network Access'']"
    using results_main_probes [of e initial] by (elim exE conjE) (rule that)
  have r: "results (main e) = [a, b, c, d1, d2, f, g]"
    using m(1) by (simp add: main_def results_main_summary initial_def)
  have l: "length (results (main e)) = 7"
    unfolding r by simp
  have n: "map name (results (main e)) =
     [js ''Node.js Version'', js ''Anthropic API Key'', js ''Gemini API Key'',
      js ''Directory ./cloned-pages'', js ''Directory ./screenshots'',
      js ''Playwright Browser'', js ''Network Access'']"
    unfolding r by (rule m(2))
  have k: "length dirs = 2"
    by (simp add: dirs_def)
  show ?thesis
    using appended_NodeVersion [of e s] appended_AnthropicKey [of e s] appended_GeminiKey [of e s]
      appended_Directories [of e s] appended_Playwright [of e s] appended_Network [of e s] n l k
    by blast
qed

text \<open>In the environment where every probe fails, all seven results are still there.\<close>

theorem main_seven_results_witness:
  "map status (results (main env_bad)) = [Fail, Fail, Fail, Fail, Fail, Fail, Fail] \<and>
   length (results (main env_bad)) = 7"
proof -
  have v: "major_of (js ''v16.20.2'') = Some 16"
    by (simp add: major_of_def slice_1_def split_dot_0_def js_def parseInt_def Let_def
        is_white_space_def is_radix_digit_def digit_val_def digits_value_def)
  have t: "trim (js ''  '') = []"
    by (simp add: trim_def js_def is_white_space_def)
  obtain a b c d1 d2 f g where m:
    "results (main_probes env_bad initial) = results initial @ [a, b, c, d1, d2, f, g]"
    "map status [a, b, c, d1, d2, f, g] = [Fail, Fail, Fail, Fail, Fail, Fail, Fail]"
    using results_main_probes [of env_bad initial]
    by (elim exE conjE) (rule that, assumption, simp add: env_bad_def v t)
  have "map status (results (main env_bad)) = [Fail, Fail, Fail, Fail, Fail, Fail, Fail]"
    using m by (simp add: main_def results_main_summary initial_def)
  then show ?thesis
    using main_seven_results [of env_bad initial] by simp
qed

lemma statuses_env0:
  "map status (results (main env0)) = [Pass, Fail, Fail, Pass, Pass, Pass, Pass]"
proof -
  have v: "major_of (js ''v20.11.0'') = Some 20"
    by (simp add: major_of_def slice_1_def split_dot_0_def js_def parseInt_def Let_def
        is_white_space_def is_radix_digit_def digit_val_def digits_value_def)
  obtain a b c d1 d2 f g where m:
    "results (main_probes env0 initial) = results initial @ [a, b, c, d1, d2, f, g]"
    "map status [a, b, c, d1, d2, f, g] = [Pass, Fail, Fail, Pass, Pass, Pass, Pass]"
    using results_main_probes [of env0 initial]
    by (elim exE conjE) (rule that, assumption, simp add: env0_def v)
  show ?thesis
    using m by (simp add: main_def results_main_summary initial_def)
qed

lemma statuses_env_ok:
  "map status (results (main env_ok)) = [Pass, Pass, Pass, Pass, Pass, Pass, Pass]"
proof -
  have v: "major_of (js ''v20.11.0'') = Some 20"
    by (simp add: major_of_def slice_1_def split_dot_0_def js_def parseInt_def Let_def
        is_white_space_def is_radix_digit_def digit_val_def digits_value_def)
  have t1: "trim (js ''sk-ant-'' @ replicate 43 0x61) = js ''sk-ant-'' @ replicate 43 0x61"
    by (rule trim_id) (simp_all add: js_def is_white_space_def)
  have t2: "trim (0x41 # replicate 39 0x41) = 0x41 # replicate 39 0x41"
    by (rule trim_id) (simp_all add: is_white_space_def)
  obtain a b c d1 d2 f g where m:
    "results (main_probes env_ok initial) = results initial @ [a, b, c, d1, d2, f, g]"
    "map status [a, b, c, d1, d2, f, g] = [Pass, Pass, Pass, Pass, Pass, Pass, Pass]"
    using results_main_probes [of env_ok initial]
    by (elim exE conjE)
      (rule that, assumption,
        simp add: env_ok_def env0_def v t1 t2 startsWith_def length_js js_eq_Nil)
  show ?thesis
    using m by (simp add: main_def results_main_summary initial_def)
qed

lemma no_fail_iff: "filter (\<lambda>r. status r = Fail) rs = [] \<longleftrightarrow> Fail \<notin> set (map status rs)"
  by (induction rs) auto

text \<open>
  C1. The exit status of a run is 0 exactly when no result has status fail, and it is 1
  when at least one has.
\<close>

theorem main_exit_status:
  "(exit_status (main e) = 0 \<longleftrightarrow> filter (\<lambda>r. status r = Fail) (results (main e)) = []) \<and>
   (filter (\<lambda>r. status r = Fail) (results (main e)) \<noteq> [] \<longrightarrow> exit_status (main e) = 1)"
proof -
  have "exited (main_probes e initial) = None"
    by (simp add: exited_main_probes initial_def)
  then show ?thesis
    by (simp add: main_def main_summary_def exit_status_def console_log_def Let_def)
qed

text \<open>With no key set the run exits with 1; with both keys set it exits with 0.\<close>

theorem main_exit_status_witness:
  "filter (\<lambda>r. status r = Fail) (results (main env0)) \<noteq> [] \<and> exit_status (main env0) = 1 \<and>
   filter (\<lambda>r. status r = Fail) (results (main env_ok)) = [] \<and> exit_status (main env_ok) = 0"
proof -
  have a: "filter (\<lambda>r. status r = Fail) (results (main env0)) \<noteq> []"
    by (simp add: no_fail_iff statuses_env0)
  have b: "filter (\<lambda>r. status r = Fail) (results (main env_ok)) = []"
    by (simp add: no_fail_iff statuses_env_ok)
  show ?thesis
    using main_exit_status [of env0] main_exit_status [of env_ok] a b by blast
qed

section \<open>The summary\<close>

lemma partition_by_status:
  "length (filter (\<lambda>r. status r = Fail) rs) + length (filter (\<lambda>r. status r = Warn) rs) +
   length (filter (\<lambda>r. status r = Pass) rs) = length rs"
proof (induction rs)
  case Nil
  then show ?case by simp
next
  case (Cons r rs)
  then show ?case by (cases "status r") simp_all
qed

lemma decimal_value_snoc:
  "decimal_value (ds @ [d]) = 10 * decimal_value ds + (unat d - 48)"
  by (simp add: decimal_value_def)

lemma unat_digit: "k < 10 \<Longrightarrow> unat (of_nat (48 + k) :: 16 word) - 48 = k"
proof -
  assume "k < 10"
  then have "48 + k < 2 ^ LENGTH(16)" by simp
  with refl have "unat (of_nat (48 + k) :: 16 word) = 48 + k"
    by (rule of_nat_inverse)
  then show ?thesis by simp
qed

lemma decimal_value_show_nat: "decimal_value (show_nat n) = n"
proof (induction n rule: show_nat.induct)
  case (1 n)
  show ?case
  proof (cases "n < 10")
    case True
    then show ?thesis
      by (subst show_nat.simps) (simp add: decimal_value_def unat_digit del: of_nat_add)
  next
    case False
    have "show_nat n = show_nat (n div 10) @ [of_nat (48 + n mod 10)]"
      using False by (subst show_nat.simps) (simp del: of_nat_add)
    then show ?thesis
      using "1.IH" [OF False] by (simp add: decimal_value_snoc unat_digit del: of_nat_add)
  qed
qed

text \<open>
  C6. The summary leaves the results as they are and splits them by status into three
  groups that together are all of them. With no failed result it prints, after the rule,
  the success banner with the counts passed/total, then the note with the count of
  warnings exactly when there is a warning, then the closing line, and the exit status
  is 0. With a failed result it prints the failure banner with the count of failures and
  the hint, and the exit status is 1. The counts are printed in decimal.
\<close>

theorem main_summary_report:
  "exited s = None \<Longrightarrow>
   (let failed = length (filter (\<lambda>r. status r = Fail) (results s));
        warned = length (filter (\<lambda>r. status r = Warn) (results s));
        passed = length (filter (\<lambda>r. status r = Pass) (results s));
        total = length (results s);
        rule = [(Plain, [0x0A] @ replicate 60 0x2500 @ [0x0A])]
    in results (main_summary s) = results s \<and>
       failed + warned + passed = total \<and>
       (\<forall>n. decimal_value (show_nat n) = n) \<and>
       (failed = 0 \<longrightarrow>
          stdout (main_summary s) = stdout s @
            [rule,
             [(BoldGreen, [0xD83C, 0xDF89] @ js '' ALL CHECKS PASSED! ('' @ show_nat passed @
                 js ''/'' @ show_nat total @ js '')'')]] @
            (if 0 < warned
             then [[(Yellow, js ''   '' @ show_nat warned @ js '' warning(s) - review above'')]]
             else []) @
            [[(Cyan, [0x0A] @ js ''   Ready to start! Type: claude'' @ [0x0A])]] \<and>
          exit_status (main_summary s) = 0) \<and>
       (0 < failed \<longrightarrow>
          stdout (main_summary s) = stdout s @
            [rule,
             [(BoldRed, [0x274C] @ js '' '' @ show_nat failed @ js '' CHECK(S) FAILED'')],
             [(White, [0x0A] @ js ''   Fix the issues above, then run: npm run check'' @ [0x0A])]] \<and>
          exit_status (main_summary s) = 1))"
proof -
  assume ex: "exited s = None"
  have p: "length (filter (\<lambda>r. status r = Fail) (results s)) +
           length (filter (\<lambda>r. status r = Warn) (results s)) +
           length (filter (\<lambda>r. status r = Pass) (results s)) = length (results s)"
    by (rule partition_by_status)
  have ok: "stdout (main_summary s) = stdout s @
            [[(Plain, [0x0A] @ replicate 60 0x2500 @ [0x0A])],
             [(BoldGreen, [0xD83C, 0xDF89] @ js '' ALL CHECKS PASSED! ('' @
                 show_nat (length (filter (\<lambda>r. status r = Pass) (results s))) @
                 js ''/'' @ show_nat (length (results s)) @ js '')'')]] @
            (if 0 < length (filter (\<lambda>r. status r = Warn) (results s))
             then [[(Yellow, js ''   '' @
                      show_nat (length (filter (\<lambda>r. status r = Warn) (results s))) @
                      js '' warning(s) - review above'')]]
             else []) @
            [[(Cyan, [0x0A] @ js ''   Ready to start! Type: claude'' @ [0x0A])]] \<and>
          exit_status (main_summary s) = 0"
    if "filter (\<lambda>r. status r = Fail) (results s) = []"
    using that ex by (simp add: main_summary_def console_log_def exit_status_def Let_def)
  have bad: "stdout (main_summary s) = stdout s @
            [[(Plain, [0x0A] @ replicate 60 0x2500 @ [0x0A])],
             [(BoldRed, [0x274C] @ js '' '' @
                 show_nat (length (filter (\<lambda>r. status r = Fail) (results s))) @
                 js '' CHECK(S) FAILED'')],
             [(White, [0x0A] @ js ''   Fix the issues above, then run: npm run check'' @ [0x0A])]] \<and>
          exit_status (main_summary s) = 1"
    if "filter (\<lambda>r. status r = Fail) (results s) \<noteq> []"
    using that by (simp add: main_summary_def console_log_def exit_status_def Let_def)
  show ?thesis
    unfolding Let_def
    using p ok bad results_main_summary [of s] decimal_value_show_nat
    by (simp only: length_0_conv length_greater_0_conv simp_thms) blast
qed

text \<open>
  The summaries the specification lists: results pass, warn, pass give exit status 0 and
  a note of 1 warning; results pass, fail, warn give exit status 1 and the banner
  \<open>1 CHECK(S) FAILED\<close>.
\<close>

theorem main_summary_report_witness:
  "exit_status (main_summary (initial\<lparr>results := [sample Pass, sample Warn, sample Pass]\<rparr>)) = 0 \<and>
   stdout (main_summary (initial\<lparr>results := [sample Pass, sample Warn, sample Pass]\<rparr>)) =
     [[(Plain, [0x0A] @ replicate 60 0x2500 @ [0x0A])],
      [(BoldGreen, [0xD83C, 0xDF89] @ js '' ALL CHECKS PASSED! (2/3)'')],
      [(Yellow, js ''   1 warning(s) - review above'')],
      [(Cyan, [0x0A] @ js ''   Ready to start! Type: claude'' @ [0x0A])]] \<and>
   exit_status (main_summary (initial\<lparr>results := [sample Pass, sample Fail, sample Warn]\<rparr>)) = 1 \<and>
   stdout (main_summary (initial\<lparr>results := [sample Pass, sample Fail, sample Warn]\<rparr>)) =
     [[(Plain, [0x0A] @ replicate 60 0x2500 @ [0x0A])],
      [(BoldRed, [0x274C] @ js '' 1 CHECK(S) FAILED'')],
      [(White, [0x0A] @ js ''   Fix the issues above, then run: npm run check'' @ [0x0A])]]"
proof -
  have n: "show_nat (Suc 0) = js ''1''" "show_nat (Suc (Suc 0)) = js ''2''"
    "show_nat (Suc (Suc (Suc 0))) = js ''3''"
    by (simp_all add: show_nat.simps js_def)
  have j: "js '' ALL CHECKS PASSED! ('' @ js ''2'' @ js ''/'' @ js ''3'' @ js '')'' =
           js '' ALL CHECKS PASSED! (2/3)''"
    "js ''   '' @ js ''1'' @ js '' warning(s) - review above'' = js ''   1 warning(s) - review above''"
    "js '' '' @ js ''1'' @ js '' CHECK(S) FAILED'' = js '' 1 CHECK(S) FAILED''"
    by (simp_all add: js_def)
  have e: "exited (initial\<lparr>results := rs\<rparr>) = None" for rs
    by (simp add: initial_def)
  have a: "exit_status (main_summary (initial\<lparr>results := [sample Pass, sample Warn, sample Pass]\<rparr>)) = 0 \<and>
   stdout (main_summary (initial\<lparr>results := [sample Pass, sample Warn, sample Pass]\<rparr>)) =
     [[(Plain, [0x0A] @ replicate 60 0x2500 @ [0x0A])],
      [(BoldGreen, [0xD83C, 0xDF89] @ js '' ALL CHECKS PASSED! (2/3)'')],
      [(Yellow, js ''   1 warning(s) - review above'')],
      [(Cyan, [0x0A] @ js ''   Ready to start! Type: claude'' @ [0x0A])]]"
    using main_summary_report [OF e, of "[sample Pass, sample Warn, sample Pass]"]
    by (simp add: Let_def sample_def initial_def n j)
  have b: "exit_status (main_summary (initial\<lparr>results := [sample Pass, sample Fail, sample Warn]\<rparr>)) = 1 \<and>
   stdout (main_summary (initial\<lparr>results := [sample Pass, sample Fail, sample Warn]\<rparr>)) =
     [[(Plain, [0x0A] @ replicate 60 0x2500 @ [0x0A])],
      [(BoldRed, [0x274C] @ js '' 1 CHECK(S) FAILED'')],
      [(White, [0x0A] @ js ''   Fix the issues above, then run: npm run check'' @ [0x0A])]]"
    using main_summary_report [OF e, of "[sample Pass, sample Fail, sample Warn]"]
    by (simp add: Let_def sample_def initial_def n j)
  from a b show ?thesis by blast
qed

section \<open>Errors of the browser and network probes\<close>

lemma first_rejection_None: "first_rejection os = None \<longleftrightarrow> (\<forall>x\<in>set os. x = None)"
  by (induction os rule: first_rejection.induct) simp_all

text \<open>
  C7. Whatever error makes the network probe fail, at whichever of its awaited steps, the
  result appended is the same fixed record with the generic connectivity message; the
  error text is not part of it. When the browser probe fails, the message of its result
  contains the text of the error.
\<close>

theorem checkNetwork_generic_message:
  "(\<forall>err. first_rejection [network_launch e, network_newPage e, network_goto e, network_close e]
            = Some err \<longrightarrow>
      results (checkNetwork e s) = results s @
        [\<lparr>name = js ''Network Access'', status = Fail,
          message = js ''Cannot reach websites. Check your internet connection.''\<rparr>]) \<and>
   (\<forall>err. first_rejection [playwright_launch e, playwright_close e] = Some err \<longrightarrow>
      results (checkPlaywright e s) = results s @
        [\<lparr>name = js ''Playwright Browser'', status = Fail,
          message = js ''Browser failed: '' @ error_message err @
                    js ''. Run: npx playwright install chromium''\<rparr>] \<and>
      sublist (error_message err) (message (last (results (checkPlaywright e s)))))"
proof -
  have "sublist m (js ''Browser failed: '' @ m @ js ''. Run: npx playwright install chromium'')" for m
    by (rule sublist_appendI)
  then show ?thesis
    by (simp add: checkNetwork_def checkPlaywright_def results_log)
qed

text \<open>
  A navigation that times out gives the generic message, which does not contain the text
  of the timeout; a browser that is not installed gives a message with the error's text.
\<close>

theorem checkNetwork_generic_message_witness:
  "results (checkNetwork env_bad initial) =
     [\<lparr>name = js ''Network Access'', status = Fail,
       message = js ''Cannot reach websites. Check your internet connection.''\<rparr>] \<and>
   \<not> sublist (js ''page.goto: Timeout 10000ms exceeded.'')
       (js ''Cannot reach websites. Check your internet connection.'') \<and>
   results (checkPlaywright env_bad initial) =
     [\<lparr>name = js ''Playwright Browser'', status = Fail,
       message = js ''Browser failed: '' @ js ''Executable does not exist'' @
                 js ''. Run: npx playwright install chromium''\<rparr>]"
proof -
  have n: "first_rejection [network_launch env_bad, network_newPage env_bad,
             network_goto env_bad, network_close env_bad]
           = Some (Error (js ''page.goto: Timeout 10000ms exceeded.''))"
    by (simp add: env_bad_def)
  have p: "first_rejection [playwright_launch env_bad, playwright_close env_bad]
           = Some (Error (js ''Executable does not exist''))"
    by (simp add: env_bad_def)
  have c: "\<not> sublist (js ''page.goto: Timeout 10000ms exceeded.'')
       (js ''Cannot reach websites. Check your internet connection.'')"
    by (simp add: js_def sublist_Cons_right)
  show ?thesis
    using checkNetwork_generic_message [of env_bad initial] n p c
    by (simp add: initial_def)
qed

section \<open>Dependence on the environment\<close>

lemma exit_status_main:
  "exit_status (main e) = (if Fail \<in> set (map status (results (main e))) then 1 else 0)"
proof -
  have "exited (main_probes e initial) = None"
    by (simp add: exited_main_probes initial_def)
  then show ?thesis
    by (simp add: main_def main_summary_def exit_status_def console_log_def Let_def
        no_fail_iff results_main_summary)
qed

lemma statuses_main_eq:
  assumes "ANTHROPIC_API_KEY e1 = ANTHROPIC_API_KEY e2"
    and "GEMINI_API_KEY e1 = GEMINI_API_KEY e2"
    and "version e1 = version e2"
    and "\<And>d. ensureDir e1 d = None \<longleftrightarrow> ensureDir e2 d = None"
    and "\<And>d. access_W_OK e1 d = None \<longleftrightarrow> access_W_OK e2 d = None"
    and "playwright_launch e1 = None \<longleftrightarrow> playwright_launch e2 = None"
    and "playwright_close e1 = None \<longleftrightarrow> playwright_close e2 = None"
    and "network_launch e1 = None \<longleftrightarrow> network_launch e2 = None"
    and "network_newPage e1 = None \<longleftrightarrow> network_newPage e2 = None"
    and "network_goto e1 = None \<longleftrightarrow> network_goto e2 = None"
    and "network_close e1 = None \<longleftrightarrow> network_close e2 = None"
  shows "map status (results (main e1)) = map status (results (main e2))"
proof -
  obtain a b c d1 d2 f g where m1:
    "results (main_probes e1 initial) = results initial @ [a, b, c, d1, d2, f, g]"
    and s1: "map status [a, b, c, d1, d2, f, g] =
       [if (case major_of (version e1) of None \<Rightarrow> False | Some m \<Rightarrow> 18 \<le> m) then Pass else Fail,
        case map_option trim (ANTHROPIC_API_KEY e1) of
          None \<Rightarrow> Fail
        | Some k \<Rightarrow> if k = [] then Fail
                    else if \<not> startsWith k (js ''sk-ant-'') then Warn
                    else if length k < 50 then Warn else Pass,
        case map_option trim (GEMINI_API_KEY e1) of
          None \<Rightarrow> Fail
        | Some k \<Rightarrow> if k = [] then Fail else if length k < 30 then Warn else Pass,
        if first_rejection [ensureDir e1 (js ''./cloned-pages''),
                            access_W_OK e1 (js ''./cloned-pages'')] = None then Pass else Fail,
        if first_rejection [ensureDir e1 (js ''./screenshots''),
                            access_W_OK e1 (js ''./screenshots'')] = None then Pass else Fail,
        if first_rejection [playwright_launch e1, playwright_close e1] = None then Pass else Fail,
        if first_rejection [network_launch e1, network_newPage e1,
                            network_goto e1, network_close e1] = None then Pass else Fail]"
    using results_main_probes [of e1 initial] by (elim exE conjE) (rule that)
  obtain a' b' c' d1' d2' f' g' where m2:
    "results (main_probes e2 initial) = results initial @ [a', b', c', d1', d2', f', g']"
    and s2: "map status [a', b', c', d1', d2', f', g'] =
       [if (case major_of (version e2) of None \<Rightarrow> False | Some m \<Rightarrow> 18 \<le> m) then Pass else Fail,
        case map_option trim (ANTHROPIC_API_KEY e2) of
          None \<Rightarrow> Fail
        | Some k \<Rightarrow> if k = [] then Fail
                    else if \<not> startsWith k (js ''sk-ant-'') then Warn
                    else if length k < 50 then Warn else Pass,
        case map_option trim (GEMINI_API_KEY e2) of
          None \<Rightarrow> Fail
        | Some k \<Rightarrow> if k = [] then Fail else if length k < 30 then Warn else Pass,
        if first_rejection [ensureDir e2 (js ''./cloned-pages''),
                            access_W_OK e2 (js ''./cloned-pages'')] = None then Pass else Fail,
        if first_rejection [ensureDir e2 (js ''./screenshots''),
                            access_W_OK e2 (js ''./screenshots'')] = None then Pass else Fail,
        if first_rejection [playwright_launch e2, playwright_close e2] = None then Pass else Fail,
        if first_rejection [network_launch e2, network_newPage e2,
                            network_goto e2, network_close e2] = None then Pass else Fail]"
    using results_main_probes [of e2 initial] by (elim exE conjE) (rule that)
  have "map status [a, b, c, d1, d2, f, g] = map status [a', b', c', d1', d2', f', g']"
    unfolding s1 s2 first_rejection_None
    using assms by simp
  then show ?thesis
    using m1 m2 by (simp add: main_def results_main_summary initial_def)
qed

text \<open>
  C8. Two runs whose environments hold the same two keys and the same version string, and
  in which every awaited operation (creating and testing each directory, launching and
  closing the browser, the steps of the navigation) has the same outcome, resolved or
  rejected, produce the same sequence of statuses and the same exit status. The errors
  of the rejected operations may differ, and with them the text of the messages.
\<close>

theorem main_statuses_determined:
  "ANTHROPIC_API_KEY e1 = ANTHROPIC_API_KEY e2 \<Longrightarrow>
   GEMINI_API_KEY e1 = GEMINI_API_KEY e2 \<Longrightarrow>
   version e1 = version e2 \<Longrightarrow>
   (\<forall>d. ensureDir e1 d = None \<longleftrightarrow> ensureDir e2 d = None) \<Longrightarrow>
   (\<forall>d. access_W_OK e1 d = None \<longleftrightarrow> access_W_OK e2 d = None) \<Longrightarrow>
   (playwright_launch e1 = None \<longleftrightarrow> playwright_launch e2 = None) \<Longrightarrow>
   (playwright_close e1 = None \<longleftrightarrow> playwright_close e2 = None) \<Longrightarrow>
   (network_launch e1 = None \<longleftrightarrow> network_launch e2 = None) \<Longrightarrow>
   (network_newPage e1 = None \<longleftrightarrow> network_newPage e2 = None) \<Longrightarrow>
   (network_goto e1 = None \<longleftrightarrow> network_goto e2 = None) \<Longrightarrow>
   (network_close e1 = None \<longleftrightarrow> network_close e2 = None) \<Longrightarrow>
   map status (results (main e1)) = map status (results (main e2)) \<and>
   exit_status (main e1) = exit_status (main e2)"
proof -
  assume a: "ANTHROPIC_API_KEY e1 = ANTHROPIC_API_KEY e2"
    "GEMINI_API_KEY e1 = GEMINI_API_KEY e2"
    "version e1 = version e2"
    "\<forall>d. ensureDir e1 d = None \<longleftrightarrow> ensureDir e2 d = None"
    "\<forall>d. access_W_OK e1 d = None \<longleftrightarrow> access_W_OK e2 d = None"
    "playwright_launch e1 = None \<longleftrightarrow> playwright_launch e2 = None"
    "playwright_close e1 = None \<longleftrightarrow> playwright_close e2 = None"
    "network_launch e1 = None \<longleftrightarrow> network_launch e2 = None"
    "network_newPage e1 = None \<longleftrightarrow> network_newPage e2 = None"
    "network_goto e1 = None \<longleftrightarrow> network_goto e2 = None"
    "network_close e1 = None \<longleftrightarrow> network_close e2 = None"
  have "map status (results (main e1)) = map status (results (main e2))"
    by (rule statuses_main_eq) (use a in blast)+
  then show ?thesis
    by (simp add: exit_status_main)
qed

text \<open>
  Two runs that differ only in the error with which the browser fails to launch: the
  statuses are the same, the messages of the browser probe are not.
\<close>

theorem main_statuses_determined_witness:
  "map status (results (main env_bad)) =
   map status (results (main (env_bad\<lparr>playwright_launch := Some (Error (js ''spawn ENOENT''))\<rparr>))) \<and>
   exit_status (main env_bad) =
   exit_status (main (env_bad\<lparr>playwright_launch := Some (Error (js ''spawn ENOENT''))\<rparr>)) \<and>
   results (checkPlaywright env_bad initial) \<noteq>
   results (checkPlaywright (env_bad\<lparr>playwright_launch := Some (Error (js ''spawn ENOENT''))\<rparr>) initial)"
proof -
  have d: "results (checkPlaywright env_bad initial) \<noteq>
   results (checkPlaywright (env_bad\<lparr>playwright_launch := Some (Error (js ''spawn ENOENT''))\<rparr>) initial)"
    by (simp add: checkPlaywright_def results_log env_bad_def initial_def js_def)
  show ?thesis
    using main_statuses_determined
      [of env_bad "env_bad\<lparr>playwright_launch := Some (Error (js ''spawn ENOENT''))\<rparr>"] d
    by (simp add: env_bad_def)
qed

end
